theory Spec2Isabelle
  imports Complex_Main "HOL-Library.Word"
begin

section \<open>JavaScript values\<close>

text \<open>
  A JavaScript string is a sequence of UTF-16 code units. The texts typed into the form
  fields and the strings inside JSON documents are modelled so; the literals of the
  program (messages, role names, tab names) are ordinary strings.
\<close>

type_synonym jsstring = "16 word list"

definition ascii :: "string \<Rightarrow> jsstring" where
  "ascii s = map of_char s"

text \<open>
  \<^verbatim>\<open>String.prototype.trim\<close> removes the WhiteSpace and LineTerminator code points of
  ECMAScript from both ends: TAB, LF, VT, FF, CR, SP, NBSP, U+1680, U+2000..U+200A,
  U+2028, U+2029, U+202F, U+205F, U+3000 and U+FEFF.
\<close>

definition is_js_space :: "16 word \<Rightarrow> bool" where
  "is_js_space c \<longleftrightarrow>
     c = 0x9 \<or> c = 0xA \<or> c = 0xB \<or> c = 0xC \<or> c = 0xD \<or> c = 0x20 \<or> c = 0xA0 \<or>
     c = 0x1680 \<or> (0x2000 \<le> c \<and> c \<le> 0x200A) \<or> c = 0x2028 \<or> c = 0x2029 \<or>
     c = 0x202F \<or> c = 0x205F \<or> c = 0x3000 \<or> c = 0xFEFF"

definition trim :: "jsstring \<Rightarrow> jsstring" where
  "trim s = rev (dropWhile is_js_space (rev (dropWhile is_js_space s)))"

text \<open>
  The result of \<^verbatim>\<open>res.json()\<close>: a JSON document. The entries of an object are kept in
  order, each key once, as the parser leaves them; a number is kept as a rational, of
  which the program only observes whether it is zero.
\<close>

datatype json =
    JNull
  | JBool bool
  | JNum rat
  | JStr jsstring
  | JArr "json list"
  | JObj "(jsstring \<times> json) list"

text \<open>Truthiness, as \<^verbatim>\<open>!v\<close>, \<^verbatim>\<open>v && ...\<close> and \<^verbatim>\<open>v || ...\<close> read a value.\<close>

fun truthy :: "json \<Rightarrow> bool" where
  "truthy JNull = False"
| "truthy (JBool b) = b"
| "truthy (JNum n) = (n \<noteq> 0)"
| "truthy (JStr s) = (s \<noteq> [])"
| "truthy (JArr xs) = True"
| "truthy (JObj kvs) = True"

text \<open>
  What the program can throw: \<^verbatim>\<open>new Error(message)\<close> of the API client, the
  \<^verbatim>\<open>TypeError\<close> of a rejected \<^verbatim>\<open>fetch\<close> or of a property read on \<^verbatim>\<open>null\<close>, and the
  \<^verbatim>\<open>SyntaxError\<close> of \<^verbatim>\<open>res.json()\<close> on a body that is not JSON.
\<close>

datatype js_error = Error string | TypeError | SyntaxError

text \<open>
  \<^verbatim>\<open>p.patient_id\<close>: throws on \<^verbatim>\<open>null\<close>, reads the entry of an object, and is
  \<^verbatim>\<open>undefined\<close> (here \<open>None\<close>) on every other value.
\<close>

fun patient_id :: "json \<Rightarrow> js_error + json option" where
  "patient_id JNull = Inl TypeError"
| "patient_id (JObj kvs) = Inr (map_of kvs (ascii ''patient_id''))"
| "patient_id (JBool b) = Inr None"
| "patient_id (JNum n) = Inr None"
| "patient_id (JStr s) = Inr None"
| "patient_id (JArr xs) = Inr None"

text \<open>\<^verbatim>\<open>results.length === 0\<close>.\<close>

fun length_is_0 :: "json \<Rightarrow> js_error + bool" where
  "length_is_0 JNull = Inl TypeError"
| "length_is_0 (JArr xs) = Inr (xs = [])"
| "length_is_0 (JStr s) = Inr (s = [])"
| "length_is_0 (JObj kvs) = Inr (map_of kvs (ascii ''length'') = Some (JNum 0))"
| "length_is_0 (JBool b) = Inr False"
| "length_is_0 (JNum n) = Inr False"

text \<open>
  \<^verbatim>\<open>Promise.all\<close>: fulfilled with all the values when every promise is fulfilled,
  rejected as soon as one is. The handler that awaits it here ignores which error it
  was rejected with, so the first in the order of the array stands for it.
\<close>

fun Promise_all :: "(js_error + 'a) list \<Rightarrow> js_error + 'a list" where
  "Promise_all [] = Inr []"
| "Promise_all (Inl e # rs) = Inl e"
| "Promise_all (Inr v # rs) =
     (case Promise_all rs of Inl e \<Rightarrow> Inl e | Inr vs \<Rightarrow> Inr (v # vs))"

section \<open>Images\<close>

text \<open>
  The off-screen canvas of the capture: its size and the video frame drawn over the
  whole of it. A blob is either the bytes of a file the user picked or what
  \<^verbatim>\<open>canvas.toBlob(callback, type, quality)\<close> hands to its callback: the encoding of
  that canvas in that type at that quality.
\<close>

record canvas =
  width :: nat
  height :: nat
  drawn :: nat

datatype blob = Bytes "8 word list" | Encoded canvas string real

record jsfile =
  file_name :: string
  file_type :: string
  file_bits :: blob

section \<open>The network\<close>

record payload =
  encounter_type :: string
  presenting_complaint :: jsstring
  doctor_name :: "jsstring option"

text \<open>
  The requests of the API client, by endpoint. The patient identifier is the value the
  template literal puts into the path (\<open>None\<close> for \<^verbatim>\<open>undefined\<close>); a search carries
  the parameters that were appended.
  \<^item> \<open>GET_search\<close>: \<^verbatim>\<open>GET /patients/search?name=&date_of_birth=\<close>
  \<^item> \<open>GET_summary\<close>: \<^verbatim>\<open>GET /patients/{id}/summary\<close>
  \<^item> \<open>GET_encounters\<close>: \<^verbatim>\<open>GET /patients/{id}/encounters\<close>
  \<^item> \<open>GET_medications\<close>: \<^verbatim>\<open>GET /patients/{id}/medications\<close>
  \<^item> \<open>GET_allergies\<close>: \<^verbatim>\<open>GET /patients/{id}/allergies\<close>
  \<^item> \<open>GET_vitals_labs\<close>: \<^verbatim>\<open>GET /patients/{id}/vitals-labs\<close>
  \<^item> \<open>POST_photo\<close>: \<^verbatim>\<open>POST /patients/{id}/photo\<close>, multipart with the field \<^verbatim>\<open>file\<close>
  \<^item> \<open>POST_encounters\<close>: \<^verbatim>\<open>POST /patients/{id}/encounters\<close>, a JSON body
\<close>

datatype request =
    GET_search "jsstring option" "jsstring option"
  | GET_summary "json option"
  | GET_encounters "json option"
  | GET_medications "json option"
  | GET_allergies "json option"
  | GET_vitals_labs "json option"
  | POST_photo "json option" jsfile
  | POST_encounters "json option" payload

text \<open>
  What \<^verbatim>\<open>await fetch(...)\<close> gives: a rejection when no response arrives, or a response
  with its status and its body, the body being the document it parses to (\<open>None\<close> when
  it is not JSON).
\<close>

datatype fetch_result = NetworkFailure | Response nat "json option"

text \<open>\<^verbatim>\<open>res.ok\<close>: the status is in the range 200 to 299.\<close>

definition ok :: "nat \<Rightarrow> bool" where
  "ok status \<longleftrightarrow> 200 \<le> status \<and> status \<le> 299"

text \<open>
  The server and the network are a parameter of the model: a function from the requests
  issued so far and the request being issued to what \<^verbatim>\<open>fetch\<close> gives.
\<close>

type_synonym network = "request list \<Rightarrow> request \<Rightarrow> fetch_result"

definition fetch :: "network \<Rightarrow> request \<Rightarrow> request list \<Rightarrow> fetch_result \<times> request list" where
  "fetch net req sent = (net sent req, sent @ [req])"

section \<open>The API client\<close>

text \<open>
  Every function of the client ends the same way:
  \<^verbatim>\<open>if (!res.ok) throw new Error(message); return res.json();\<close>
\<close>

fun json_or_throw :: "string \<Rightarrow> fetch_result \<Rightarrow> js_error + json" where
  "json_or_throw message NetworkFailure = Inl TypeError"
| "json_or_throw message (Response status body) =
     (if \<not> ok status then Inl (Error message)
      else case body of None \<Rightarrow> Inl SyntaxError | Some j \<Rightarrow> Inr j)"

type_synonym 'a api = "request list \<Rightarrow> (js_error + 'a) \<times> request list"

definition searchPatients :: "network \<Rightarrow> jsstring \<Rightarrow> jsstring \<Rightarrow> json api" where
  "searchPatients net name dob sent =
     (case fetch net (GET_search (if name \<noteq> [] then Some name else None)
                                 (if dob \<noteq> [] then Some dob else None)) sent of
        (res, sent') \<Rightarrow> (json_or_throw ''Failed to search patients'' res, sent'))"

definition getPatientSummary :: "network \<Rightarrow> json option \<Rightarrow> json api" where
  "getPatientSummary net patientId sent =
     (case fetch net (GET_summary patientId) sent of
        (res, sent') \<Rightarrow> (json_or_throw ''Failed to fetch patient summary'' res, sent'))"

definition getPatientEncounters :: "network \<Rightarrow> json option \<Rightarrow> json api" where
  "getPatientEncounters net patientId sent =
     (case fetch net (GET_encounters patientId) sent of
        (res, sent') \<Rightarrow> (json_or_throw ''Failed to fetch encounters'' res, sent'))"

definition getPatientMedications :: "network \<Rightarrow> json option \<Rightarrow> json api" where
  "getPatientMedications net patientId sent =
     (case fetch net (GET_medications patientId) sent of
        (res, sent') \<Rightarrow> (json_or_throw ''Failed to fetch medications'' res, sent'))"

definition getPatientAllergies :: "network \<Rightarrow> json option \<Rightarrow> json api" where
  "getPatientAllergies net patientId sent =
     (case fetch net (GET_allergies patientId) sent of
        (res, sent') \<Rightarrow> (json_or_throw ''Failed to fetch allergies'' res, sent'))"

definition getPatientVitalsLabs :: "network \<Rightarrow> json option \<Rightarrow> json api" where
  "getPatientVitalsLabs net patientId sent =
     (case fetch net (GET_vitals_labs patientId) sent of
        (res, sent') \<Rightarrow> (json_or_throw ''Failed to fetch vitals/labs'' res, sent'))"

definition uploadPatientPhoto :: "network \<Rightarrow> json option \<Rightarrow> jsfile \<Rightarrow> json api" where
  "uploadPatientPhoto net patientId f sent =
     (case fetch net (POST_photo patientId f) sent of
        (res, sent') \<Rightarrow> (json_or_throw ''Failed to upload photo'' res, sent'))"

definition createEncounter :: "network \<Rightarrow> json option \<Rightarrow> payload \<Rightarrow> json api" where
  "createEncounter net patientId p sent =
     (case fetch net (POST_encounters patientId p) sent of
        (res, sent') \<Rightarrow> (json_or_throw ''Failed to create encounter'' res, sent'))"

section \<open>The state of the application\<close>

text \<open>
  The \<^verbatim>\<open>useState\<close> slots of \<^verbatim>\<open>App\<close>, under their names, with the initial values of
  the source. A slot that holds a document of the server holds it as it came:
  \<^verbatim>\<open>null\<close> is \<open>JNull\<close> and \<^verbatim>\<open>[]\<close> is \<open>JArr []\<close>.
\<close>

record app_state =
  loginRole :: string
  staffToken :: "string option"
  staffRole :: string
  name :: jsstring
  dob :: jsstring
  patients :: json
  selectedPatient :: json
  summary :: json
  encounters :: json
  medications :: json
  allergies :: json
  vitalsLabs :: json
  loading :: bool
  error :: string
  activeTab :: string
  newEncounterType :: string
  newEncounterComplaint :: jsstring
  newEncounterDoctor :: jsstring
  photoFile :: "jsfile option"
  uploadingPhoto :: bool
  showCamera :: bool

definition initial_state :: app_state where
  "initial_state =
     \<lparr>loginRole = ''Field doctor'', staffToken = None, staffRole = [],
      name = [], dob = [], patients = JArr [], selectedPatient = JNull, summary = JNull,
      encounters = JArr [], medications = JArr [], allergies = JArr [],
      vitalsLabs = JArr [], loading = False, error = [], activeTab = ''summary'',
      newEncounterType = ''A&E'', newEncounterComplaint = [], newEncounterDoctor = [],
      photoFile = None, uploadingPhoto = False, showCamera = False\<rparr>"

text \<open>
  What a handler leaves behind besides the state: the requests it issued, in order, and
  the texts it showed with \<^verbatim>\<open>alert\<close>. (\<^verbatim>\<open>console.error\<close> is not modelled.)
  The values a handler reads are those of the render it was created in. The handlers
  that change the photo and add an encounter, and \<open>loadDetails\<close> below, are given as the
  run of the handler from its invocation to its completion with nothing else happening
  between its \<^verbatim>\<open>await\<close>s. The search and the selection of a patient are also given in
  their two parts, up to the \<^verbatim>\<open>await\<close> and after it, and the section on handlers in
  flight lets other events come between the two.
\<close>

record world =
  st :: app_state
  calls :: "request list"
  alerts :: "string list"

definition canEditClinical :: "app_state \<Rightarrow> bool" where
  "canEditClinical s \<longleftrightarrow> staffRole s = ''Field doctor'' \<or> staffRole s = ''Hospital admin''"

definition isPolicyMaker :: "app_state \<Rightarrow> bool" where
  "isPolicyMaker s \<longleftrightarrow> staffRole s = ''Policy maker''"

definition handleLogin :: "world \<Rightarrow> world" where
  "handleLogin w =
     w\<lparr>st := (st w)\<lparr>staffToken := Some ''demo-token'', staffRole := loginRole (st w)\<rparr>\<rparr>"

text \<open>The \<^verbatim>\<open>onClick\<close> of the logout button.\<close>

definition logout :: "world \<Rightarrow> world" where
  "logout w =
     w\<lparr>st := (st w)\<lparr>staffToken := None, staffRole := [], patients := JArr [],
                      selectedPatient := JNull, summary := JNull\<rparr>\<rparr>"

subsection \<open>Search\<close>

text \<open>The part of \<^verbatim>\<open>handleSearch\<close> that runs before the request is issued.\<close>

definition handleSearch_reset :: "app_state \<Rightarrow> app_state" where
  "handleSearch_reset s =
     s\<lparr>error := [], loading := True, selectedPatient := JNull, summary := JNull,
       encounters := JArr [], medications := JArr [], allergies := JArr [],
       vitalsLabs := JArr [], activeTab := ''summary''\<rparr>"

text \<open>The body of the \<^verbatim>\<open>try\<close> after the \<^verbatim>\<open>await\<close>, and the \<^verbatim>\<open>catch\<close>.\<close>

definition handleSearch_settle :: "js_error + json \<Rightarrow> app_state \<Rightarrow> app_state" where
  "handleSearch_settle r s =
     (case r of
        Inl err \<Rightarrow> s\<lparr>error := ''Error searching patients''\<rparr>
      | Inr results \<Rightarrow>
          (case length_is_0 results of
             Inl err \<Rightarrow> s\<lparr>patients := results, error := ''Error searching patients''\<rparr>
           | Inr True \<Rightarrow> s\<lparr>patients := results, error := ''No patients found''\<rparr>
           | Inr False \<Rightarrow> s\<lparr>patients := results\<rparr>))"

text \<open>
  \<^verbatim>\<open>handleSearch\<close> is asynchronous. Up to its \<^verbatim>\<open>await\<close> it resets the state and issues
  the request: the state it leaves, and what the awaited call is going to give.
\<close>

definition handleSearch :: "network \<Rightarrow> world \<Rightarrow> world \<times> (js_error + json)" where
  "handleSearch net w =
     (case searchPatients net (trim (name (st w))) (trim (dob (st w))) (calls w) of
        (r, sent) \<Rightarrow> (w\<lparr>st := handleSearch_reset (st w), calls := sent\<rparr>, r))"

text \<open>
  After its \<^verbatim>\<open>await\<close>, in the state of the moment the call has settled: the rest of the
  \<^verbatim>\<open>try\<close> or the \<^verbatim>\<open>catch\<close>, then the \<^verbatim>\<open>finally\<close>.
\<close>

definition handleSearch_resume :: "js_error + json \<Rightarrow> world \<Rightarrow> world" where
  "handleSearch_resume r w = w\<lparr>st := (handleSearch_settle r (st w))\<lparr>loading := False\<rparr>\<rparr>"

subsection \<open>Selecting a patient\<close>

text \<open>The part of \<^verbatim>\<open>loadDetails\<close> that runs before the requests are issued.\<close>

definition loadDetails_begin :: "json \<Rightarrow> app_state \<Rightarrow> app_state" where
  "loadDetails_begin patient s =
     s\<lparr>selectedPatient := patient, loading := True, error := [], activeTab := ''summary''\<rparr>"

text \<open>The five calls in the array given to \<^verbatim>\<open>Promise.all\<close>, issued in its order.\<close>

definition detailFetches :: "network \<Rightarrow> json option \<Rightarrow> request list \<Rightarrow>
    (js_error + json) list \<times> request list" where
  "detailFetches net pid sent0 =
     (case getPatientSummary net pid sent0 of (s, sent1) \<Rightarrow>
      case getPatientEncounters net pid sent1 of (e, sent2) \<Rightarrow>
      case getPatientMedications net pid sent2 of (meds, sent3) \<Rightarrow>
      case getPatientAllergies net pid sent3 of (alls, sent4) \<Rightarrow>
      case getPatientVitalsLabs net pid sent4 of (vitLabs, sent5) \<Rightarrow>
        ([s, e, meds, alls, vitLabs], sent5))"

definition loadDetails_failed :: "app_state \<Rightarrow> app_state" where
  "loadDetails_failed s = s\<lparr>error := ''Error loading patient details'', loading := False\<rparr>"

text \<open>
  Reading \<^verbatim>\<open>patient.patient_id\<close> is inside the \<^verbatim>\<open>try\<close>: when it throws, no request
  is issued and the \<^verbatim>\<open>catch\<close> runs. The array that \<^verbatim>\<open>Promise.all\<close> fulfils with has the
  five values; the last case is there for the totality of the pattern only.
\<close>

definition loadDetails :: "network \<Rightarrow> json \<Rightarrow> world \<Rightarrow> world" where
  "loadDetails net patient w =
     (let s1 = loadDetails_begin patient (st w) in
      case patient_id patient of
        Inl err \<Rightarrow> w\<lparr>st := loadDetails_failed s1\<rparr>
      | Inr pid \<Rightarrow>
          (case detailFetches net pid (calls w) of
             (rs, sent) \<Rightarrow>
               (case Promise_all rs of
                  Inl err \<Rightarrow> w\<lparr>st := loadDetails_failed s1, calls := sent\<rparr>
                | Inr [s, e, meds, alls, vitLabs] \<Rightarrow>
                    w\<lparr>st := s1\<lparr>summary := s, encounters := e, medications := meds,
                              allergies := alls, vitalsLabs := vitLabs, loading := False\<rparr>,
                      calls := sent\<rparr>
                | Inr _ \<Rightarrow> w\<lparr>st := s1\<lparr>loading := False\<rparr>, calls := sent\<rparr>)))"

text \<open>
  The same handler in its two parts. Up to the \<^verbatim>\<open>await\<close>: the state it leaves and the
  results the five calls are going to give (\<open>None\<close> when reading the identifier threw and
  the handler has already finished).
\<close>

definition loadDetails_call ::
    "network \<Rightarrow> json \<Rightarrow> world \<Rightarrow> world \<times> (js_error + json) list option" where
  "loadDetails_call net patient w =
     (let s1 = loadDetails_begin patient (st w) in
      case patient_id patient of
        Inl err \<Rightarrow> (w\<lparr>st := loadDetails_failed s1\<rparr>, None)
      | Inr pid \<Rightarrow>
          (case detailFetches net pid (calls w) of
             (rs, sent) \<Rightarrow> (w\<lparr>st := s1, calls := sent\<rparr>, Some rs)))"

text \<open>
  After the \<^verbatim>\<open>await\<close>, in the state of the moment \<^verbatim>\<open>Promise.all\<close> has settled: the five
  setters or the \<^verbatim>\<open>catch\<close>, then the \<^verbatim>\<open>finally\<close>.
\<close>

definition loadDetails_settle :: "(js_error + json) list \<Rightarrow> app_state \<Rightarrow> app_state" where
  "loadDetails_settle rs s =
     (case Promise_all rs of
        Inl err \<Rightarrow> loadDetails_failed s
      | Inr [sm, e, meds, alls, vitLabs] \<Rightarrow>
          s\<lparr>summary := sm, encounters := e, medications := meds, allergies := alls,
            vitalsLabs := vitLabs, loading := False\<rparr>
      | Inr _ \<Rightarrow> s\<lparr>loading := False\<rparr>)"

definition loadDetails_resume :: "(js_error + json) list \<Rightarrow> world \<Rightarrow> world" where
  "loadDetails_resume rs w = w\<lparr>st := loadDetails_settle rs (st w)\<rparr>"

subsection \<open>Handlers in flight\<close>

text \<open>
  A handler that has reached its \<^verbatim>\<open>await\<close> leaves its remainder behind, to run when
  the awaited calls have settled. The session is the application with the remainders
  that have not run yet, oldest first. What happens to it, one thing at a time: the
  search form is submitted, a patient in the list is clicked, or the \<open>k\<close>-th remainder
  runs. The result cards stay clickable while a search is pending, and a search can be
  submitted while details are loading. What the awaited calls give is fixed by the
  network when they are issued; the moment the remainder runs is left open.
\<close>

datatype continuation = AfterSearch "js_error + json" | AfterDetails "(js_error + json) list"

record session =
  present :: world
  inflight :: "continuation list"

datatype ui_event = SubmitSearch | ClickPatient json | Resume nat

fun resume :: "continuation \<Rightarrow> world \<Rightarrow> world" where
  "resume (AfterSearch r) w = handleSearch_resume r w"
| "resume (AfterDetails rs) w = loadDetails_resume rs w"

fun ui_step :: "network \<Rightarrow> session \<Rightarrow> ui_event \<Rightarrow> session" where
  "ui_step net s SubmitSearch =
     (case handleSearch net (present s) of
        (w, r) \<Rightarrow> \<lparr>present = w, inflight = inflight s @ [AfterSearch r]\<rparr>)"
| "ui_step net s (ClickPatient p) =
     (case loadDetails_call net p (present s) of
        (w, None) \<Rightarrow> \<lparr>present = w, inflight = inflight s\<rparr>
      | (w, Some rs) \<Rightarrow> \<lparr>present = w, inflight = inflight s @ [AfterDetails rs]\<rparr>)"
| "ui_step net s (Resume k) =
     (if k < length (inflight s)
      then \<lparr>present = resume (inflight s ! k) (present s),
            inflight = take k (inflight s) @ drop (Suc k) (inflight s)\<rparr>
      else s)"

definition ui_run :: "network \<Rightarrow> session \<Rightarrow> ui_event list \<Rightarrow> session" where
  "ui_run net s evs = foldl (ui_step net) s evs"

subsection \<open>Changing the photo\<close>

text \<open>
  \<^verbatim>\<open>handlePhotoUpload(fileOverride)\<close>. The file picker's button calls it without an
  argument (\<open>None\<close>) and the file is the one in the slot \<open>photoFile\<close>; the camera
  calls it with the captured file.
\<close>

definition photo_failed :: "world \<Rightarrow> request list \<Rightarrow> world" where
  "photo_failed w sent =
     w\<lparr>st := (st w)\<lparr>uploadingPhoto := False\<rparr>, calls := sent,
       alerts := alerts w @ [''Failed to upload photo'']\<rparr>"

definition handlePhotoUpload :: "network \<Rightarrow> jsfile option \<Rightarrow> world \<Rightarrow> world" where
  "handlePhotoUpload net fileOverride w =
     (let fileToUse = (case fileOverride of Some f \<Rightarrow> Some f | None \<Rightarrow> photoFile (st w)) in
      case fileToUse of
        None \<Rightarrow> w
      | Some f \<Rightarrow>
          if \<not> truthy (selectedPatient (st w)) then w
          else if \<not> canEditClinical (st w) then
            w\<lparr>alerts := alerts w @
                 [''This role has read-only access and cannot change photos.'']\<rparr>
          else
            (case patient_id (selectedPatient (st w)) of
               Inl err \<Rightarrow> photo_failed w (calls w)
             | Inr pid \<Rightarrow>
                 (case uploadPatientPhoto net pid f (calls w) of
                    (Inl err, sent1) \<Rightarrow> photo_failed w sent1
                  | (Inr updated, sent1) \<Rightarrow>
                      (case getPatientSummary net pid sent1 of
                         (Inl err, sent2) \<Rightarrow> photo_failed w sent2
                       | (Inr freshSummary, sent2) \<Rightarrow>
                           w\<lparr>st := (st w)\<lparr>summary := freshSummary,
                                    photoFile := (if fileOverride = None then None
                                                  else photoFile (st w)),
                                    uploadingPhoto := False\<rparr>,
                             calls := sent2\<rparr>))))"

text \<open>The two places the handler is called from.\<close>

definition uploadPhotoClick :: "network \<Rightarrow> world \<Rightarrow> world" where
  "uploadPhotoClick net w = handlePhotoUpload net None w"

definition onCapture :: "network \<Rightarrow> jsfile \<Rightarrow> world \<Rightarrow> world" where
  "onCapture net f w =
     (let w' = handlePhotoUpload net (Some f) w in w'\<lparr>st := (st w')\<lparr>showCamera := False\<rparr>\<rparr>)"

subsection \<open>Adding an encounter\<close>

text \<open>The object literal given to \<^verbatim>\<open>createEncounter\<close>; \<^verbatim>\<open>null\<close> is \<open>None\<close>.\<close>

definition encounterPayload :: "app_state \<Rightarrow> payload" where
  "encounterPayload s =
     \<lparr>encounter_type = newEncounterType s,
      presenting_complaint = newEncounterComplaint s,
      doctor_name = (if newEncounterDoctor s \<noteq> [] then Some (newEncounterDoctor s) else None)\<rparr>"

definition encounter_failed :: "world \<Rightarrow> request list \<Rightarrow> world" where
  "encounter_failed w sent = w\<lparr>calls := sent, alerts := alerts w @ [''Failed to add encounter'']\<rparr>"

definition handleCreateEncounter :: "network \<Rightarrow> world \<Rightarrow> world" where
  "handleCreateEncounter net w =
     (if \<not> canEditClinical (st w) then
        w\<lparr>alerts := alerts w @
             [''This role has read-only access and cannot add encounters.'']\<rparr>
      else if \<not> truthy (selectedPatient (st w)) then w
      else if trim (newEncounterComplaint (st w)) = [] then
        w\<lparr>alerts := alerts w @ [''Enter presenting complaint'']\<rparr>
      else
        (case patient_id (selectedPatient (st w)) of
           Inl err \<Rightarrow> encounter_failed w (calls w)
         | Inr pid \<Rightarrow>
             (case createEncounter net pid (encounterPayload (st w)) (calls w) of
                (Inl err, sent1) \<Rightarrow> encounter_failed w sent1
              | (Inr created, sent1) \<Rightarrow>
                  (case getPatientEncounters net pid sent1 of
                     (Inl err, sent2) \<Rightarrow> encounter_failed w sent2
                   | (Inr updated, sent2) \<Rightarrow>
                       w\<lparr>st := (st w)\<lparr>encounters := updated, newEncounterComplaint := [],
                                newEncounterDoctor := [], newEncounterType := ''A&E''\<rparr>,
                         calls := sent2\<rparr>))))"

section \<open>The camera\<close>

text \<open>
  A media stream is the list of its tracks. The video element carries what the browser
  reports for it: the native size of the stream (zero while it is not known) and the
  frame it shows.
\<close>

type_synonym track = nat

datatype stream = Stream (getTracks: "track list")

record video_el =
  srcObject :: "stream option"
  playing :: bool
  videoWidth :: nat
  videoHeight :: nat
  frame :: nat

text \<open>
  What happens at the device, in order: a call of \<^verbatim>\<open>getUserMedia\<close> for a facing mode,
  a stream handed over by it, a track stopped.
\<close>

datatype camera_event = GetUserMedia string | Granted stream | TrackStop track


text \<open>
  The component \<^verbatim>\<open>CameraCapture\<close>: its two state slots (\<open>cam_error\<close> is its slot
  \<^verbatim>\<open>error\<close>), its two refs, the events at the device, and the calls of
  \<^verbatim>\<open>getUserMedia\<close> that have not settled yet, oldest first, each by the facing mode it
  asked for. \<^verbatim>\<open>startCamera\<close> is asynchronous: it runs up to its \<^verbatim>\<open>await\<close>, and its
  remainder runs when the promise has settled, in the state of that moment; clicks and
  other settlements can come between the two.
\<close>

record camera =
  facingMode :: string
  cam_error :: string
  streamRef :: "stream option"
  videoRef :: "video_el option"
  device :: "camera_event list"
  pending :: "string list"

text \<open>\<^verbatim>\<open>stream.getTracks().forEach((t) => t.stop())\<close>\<close>

definition stop_tracks :: "stream \<Rightarrow> camera_event list" where
  "stop_tracks s = map TrackStop (getTracks s)"




text \<open>The function the effect returns.\<close>

definition cleanup :: "camera \<Rightarrow> camera" where
  "cleanup c =
     (case streamRef c of
        None \<Rightarrow> c
      | Some s \<Rightarrow> c\<lparr>device := device c @ stop_tracks s\<rparr>)"

text \<open>
  Before its first effect the component has the initial facing mode, no stream, and its
  video element in the ref. Mounting runs the effect. A click on one of the two
  camera buttons sets the facing mode; when that changes it, the effect's dependency
  has changed: its cleanup runs and then the effect again, whether or not an earlier
  call of \<^verbatim>\<open>getUserMedia\<close> has settled. Unmounting runs the cleanup.
\<close>

definition unmounted :: "video_el \<Rightarrow> camera" where
  "unmounted v =
     \<lparr>facingMode = ''user'', cam_error = [], streamRef = None, videoRef = Some v, device = [],
      pending = []\<rparr>"







text \<open>
  \<^verbatim>\<open>handleCaptureClick\<close>. Whether \<^verbatim>\<open>canvas.toBlob\<close> hands a blob or \<^verbatim>\<open>null\<close> to its
  callback is the browser's: the parameter \<open>encodes\<close>. The result is the file given to
  \<^verbatim>\<open>onCapture\<close>, \<open>None\<close> when \<^verbatim>\<open>onCapture\<close> is not called.
\<close>

definition handleCaptureClick ::
    "(canvas \<Rightarrow> string \<Rightarrow> real \<Rightarrow> bool) \<Rightarrow> camera \<Rightarrow> jsfile option" where
  "handleCaptureClick encodes c =
     (case videoRef c of
        None \<Rightarrow> None
      | Some video \<Rightarrow>
          (let w = (if videoWidth video \<noteq> 0 then videoWidth video else 640);
               h = (if videoHeight video \<noteq> 0 then videoHeight video else 480);
               cv = \<lparr>width = w, height = h, drawn = frame video\<rparr>
           in if encodes cv ''image/jpeg'' (9 / 10) then
                Some \<lparr>file_name = ''camera_capture.jpg'', file_type = ''image/jpeg'',
                      file_bits = Encoded cv ''image/jpeg'' (9 / 10)\<rparr>
              else None))"

section \<open>Observations used in the properties\<close>

text \<open>The size and the encoding of an image file made by the capture.\<close>

fun image_size :: "jsfile \<Rightarrow> (nat \<times> nat) option" where
  "image_size f =
     (case file_bits f of
        Encoded cv t q \<Rightarrow> Some (width cv, height cv)
      | Bytes bs \<Rightarrow> None)"

fun image_encoding :: "jsfile \<Rightarrow> (string \<times> real) option" where
  "image_encoding f =
     (case file_bits f of
        Encoded cv t q \<Rightarrow> Some (t, q)
      | Bytes bs \<Rightarrow> None)"








text \<open>No patient is selected and the five detail slots are empty.\<close>

definition details_cleared :: "app_state \<Rightarrow> bool" where
  "details_cleared s \<longleftrightarrow>
     selectedPatient s = JNull \<and> summary s = JNull \<and> encounters s = JArr [] \<and>
     medications s = JArr [] \<and> allergies s = JArr [] \<and> vitalsLabs s = JArr []"

text \<open>The selection and the five detail slots are the same in two states.\<close>

definition details_kept :: "app_state \<Rightarrow> app_state \<Rightarrow> bool" where
  "details_kept s s' \<longleftrightarrow>
     selectedPatient s' = selectedPatient s \<and> summary s' = summary s \<and>
     encounters s' = encounters s \<and> medications s' = medications s \<and>
     allergies s' = allergies s \<and> vitalsLabs s' = vitalsLabs s"

text \<open>The documents a client call delivers: a response with an ok status and a JSON body.\<close>

fun delivered :: "fetch_result \<Rightarrow> json option" where
  "delivered NetworkFailure = None"
| "delivered (Response status body) = (if ok status then body else None)"

text \<open>Two fixed networks: one that never answers and one that refuses every request.\<close>

definition net_down :: network where
  "net_down sent req = NetworkFailure"

definition net_500 :: network where
  "net_500 sent req = Response 500 None"

text \<open>
  The contract of a client call, on what \<^verbatim>\<open>fetch\<close> gave and what the call gives. It
  throws the error with its own message exactly when a response arrived whose status is
  not ok. It returns the document of an ok response with a JSON body as it is. On an ok
  response whose body is not JSON it throws the error of the parser, and when no
  response arrived it throws the rejection of \<^verbatim>\<open>fetch\<close>.
\<close>

definition refused :: "fetch_result \<Rightarrow> bool" where
  "refused res = (case res of NetworkFailure \<Rightarrow> False | Response status body \<Rightarrow> \<not> ok status)"

definition unparsable :: "fetch_result \<Rightarrow> bool" where
  "unparsable res =
     (case res of NetworkFailure \<Rightarrow> False | Response status body \<Rightarrow> ok status \<and> body = None)"

definition meets_contract :: "string \<Rightarrow> fetch_result \<Rightarrow> js_error + json \<Rightarrow> bool" where
  "meets_contract message res out \<longleftrightarrow>
     ((out = Inl (Error message)) = refused res) \<and>
     (case delivered res of Some j \<Rightarrow> out = Inr j | None \<Rightarrow> isl out) \<and>
     (res = NetworkFailure \<longrightarrow> out = Inl TypeError) \<and>
     (unparsable res \<longrightarrow> out = Inl SyntaxError)"

text \<open>A network that answers every request with status 200 and a body that is not JSON.\<close>

definition net_not_json :: network where
  "net_not_json sent req = Response 200 None"

section \<open>Example states and networks\<close>

text \<open>
  Two patients as a search would list them, and the state of a field doctor who has
  selected the first and has its details loaded.
\<close>

definition patient_A :: json where
  "patient_A = JObj [(ascii ''patient_id'', JNum 1), (ascii ''first_name'', JStr (ascii ''Ada''))]"

definition patient_B :: json where
  "patient_B = JObj [(ascii ''patient_id'', JNum 2), (ascii ''first_name'', JStr (ascii ''Ben''))]"

definition world_A :: world where
  "world_A =
     \<lparr>st = initial_state
        \<lparr>staffToken := Some ''demo-token'', staffRole := ''Field doctor'',
         patients := JArr [patient_A, patient_B], selectedPatient := patient_A,
         summary := patient_A,
         encounters := JArr [JStr (ascii ''encounter of A'')],
         medications := JArr [JStr (ascii ''medication of A'')],
         allergies := JArr [JStr (ascii ''allergy of A'')],
         vitalsLabs := JArr [JStr (ascii ''vitals of A'')],
         newEncounterComplaint := ascii ''chest pain''\<rparr>,
      calls = [], alerts = []\<rparr>"

text \<open>A network on which only the allergies endpoint fails.\<close>

definition net_allergies_fail :: network where
  "net_allergies_fail sent req =
     (case req of GET_allergies pid \<Rightarrow> Response 503 None | _ \<Rightarrow> Response 200 (Some (JArr [])))"

text \<open>The same state under the read-only role.\<close>

definition world_policy :: world where
  "world_policy = world_A\<lparr>st := (st world_A)\<lparr>staffRole := ''Policy maker''\<rparr>\<rparr>"

text \<open>
  A network that answers every request with status 200 and, as its document, the number
  of requests issued before.
\<close>

definition net_ok :: network where
  "net_ok sent req = Response 200 (Some (JArr [JNum (of_nat (length sent))]))"

definition picked_photo :: jsfile where
  "picked_photo =
     \<lparr>file_name = ''face.png'', file_type = ''image/png'', file_bits = Bytes [0x89, 0x50]\<rparr>"

text \<open>
  A video element that reports a given size, and a browser whose \<^verbatim>\<open>toBlob\<close> always
  hands over a blob.
\<close>

definition video_of :: "nat \<Rightarrow> nat \<Rightarrow> video_el" where
  "video_of w h =
     \<lparr>srcObject = None, playing = False, videoWidth = w, videoHeight = h, frame = 0\<rparr>"

definition encodes_always :: "canvas \<Rightarrow> string \<Rightarrow> real \<Rightarrow> bool" where
  "encodes_always cv t q = True"

text \<open>A network on which every request succeeds with an empty list.\<close>

definition net_empty :: network where
  "net_empty sent req = Response 200 (Some (JArr []))"

text \<open>The first state with a name typed into the search form.\<close>

definition world_search :: world where
  "world_search = world_A\<lparr>st := (st world_A)\<lparr>name := ascii '' Jane ''\<rparr>\<rparr>"

text \<open>That state with no handler in flight.\<close>

definition session_search :: session where
  "session_search = \<lparr>present = world_search, inflight = []\<rparr>"

section \<open>Properties of the API client\<close>

lemma json_or_throw_contract: "meets_contract message res (json_or_throw message res)"
  by (cases res) (auto simp: meets_contract_def refused_def unparsable_def split: option.splits)

text \<open>The contract leaves one result to a call for each thing \<^verbatim>\<open>fetch\<close> can give.\<close>

lemma meets_contract_determines:
  "meets_contract message res out \<longleftrightarrow> out = json_or_throw message res"
  by (cases res)
     (auto simp: meets_contract_def refused_def unparsable_def isl_def split: option.splits)

lemmas client_defs =
  searchPatients_def getPatientSummary_def getPatientEncounters_def getPatientMedications_def
  getPatientAllergies_def getPatientVitalsLabs_def uploadPatientPhoto_def createEncounter_def
  fetch_def

text \<open>
  C7, as amended. Each of the eight calls of the API client issues exactly one request.
  It fails with the error that carries the name of its operation if and only if a
  response arrives and its status is not 2xx. When the request itself fails, the call
  fails with the rejection of \<^verbatim>\<open>fetch\<close> (a \<^verbatim>\<open>TypeError\<close>), which does not carry that
  name. On a 2xx response whose body is JSON the document is returned as it is, with no
  validation; on a 2xx response whose body is not JSON the call fails with the error of
  the parser (a \<^verbatim>\<open>SyntaxError\<close>).
\<close>

theorem api_client_contract:
  "meets_contract ''Failed to search patients''
     (net sent (GET_search (if n \<noteq> [] then Some n else None) (if d \<noteq> [] then Some d else None)))
     (fst (searchPatients net n d sent))
   \<and> snd (searchPatients net n d sent) =
       sent @ [GET_search (if n \<noteq> [] then Some n else None) (if d \<noteq> [] then Some d else None)]
   \<and> meets_contract ''Failed to fetch patient summary'' (net sent (GET_summary pid))
       (fst (getPatientSummary net pid sent))
   \<and> snd (getPatientSummary net pid sent) = sent @ [GET_summary pid]
   \<and> meets_contract ''Failed to fetch encounters'' (net sent (GET_encounters pid))
       (fst (getPatientEncounters net pid sent))
   \<and> snd (getPatientEncounters net pid sent) = sent @ [GET_encounters pid]
   \<and> meets_contract ''Failed to fetch medications'' (net sent (GET_medications pid))
       (fst (getPatientMedications net pid sent))
   \<and> snd (getPatientMedications net pid sent) = sent @ [GET_medications pid]
   \<and> meets_contract ''Failed to fetch allergies'' (net sent (GET_allergies pid))
       (fst (getPatientAllergies net pid sent))
   \<and> snd (getPatientAllergies net pid sent) = sent @ [GET_allergies pid]
   \<and> meets_contract ''Failed to fetch vitals/labs'' (net sent (GET_vitals_labs pid))
       (fst (getPatientVitalsLabs net pid sent))
   \<and> snd (getPatientVitalsLabs net pid sent) = sent @ [GET_vitals_labs pid]
   \<and> meets_contract ''Failed to upload photo'' (net sent (POST_photo pid f))
       (fst (uploadPatientPhoto net pid f sent))
   \<and> snd (uploadPatientPhoto net pid f sent) = sent @ [POST_photo pid f]
   \<and> meets_contract ''Failed to create encounter'' (net sent (POST_encounters pid p))
       (fst (createEncounter net pid p sent))
   \<and> snd (createEncounter net pid p sent) = sent @ [POST_encounters pid p]"
  by (simp add: client_defs json_or_throw_contract)

theorem api_client_contract_witness:
  "fst (getPatientSummary net_500 None []) = Inl (Error ''Failed to fetch patient summary'')
   \<and> snd (getPatientMedications net_500 None []) = [GET_medications None]
   \<and> fst (createEncounter net_500 None
          \<lparr>encounter_type = ''OPD'', presenting_complaint = [], doctor_name = None\<rparr> []) =
       Inl (Error ''Failed to create encounter'')
   \<and> fst (getPatientAllergies net_not_json None []) = Inl SyntaxError
   \<and> fst (getPatientEncounters net_down None []) = Inl TypeError
   \<and> fst (getPatientVitalsLabs net_empty None []) = Inr (JArr [])"
  using api_client_contract [of net_500 "[]" "[]" "[]" None
      "\<lparr>file_name = [], file_type = [], file_bits = Bytes []\<rparr>"
      "\<lparr>encounter_type = ''OPD'', presenting_complaint = [], doctor_name = None\<rparr>"]
    api_client_contract [of net_not_json "[]" "[]" "[]" None
      "\<lparr>file_name = [], file_type = [], file_bits = Bytes []\<rparr>"
      "\<lparr>encounter_type = ''OPD'', presenting_complaint = [], doctor_name = None\<rparr>"]
    api_client_contract [of net_down "[]" "[]" "[]" None
      "\<lparr>file_name = [], file_type = [], file_bits = Bytes []\<rparr>"
      "\<lparr>encounter_type = ''OPD'', presenting_complaint = [], doctor_name = None\<rparr>"]
    api_client_contract [of net_empty "[]" "[]" "[]" None
      "\<lparr>file_name = [], file_type = [], file_bits = Bytes []\<rparr>"
      "\<lparr>encounter_type = ''OPD'', presenting_complaint = [], doctor_name = None\<rparr>"]
  by (simp add: meets_contract_def refused_def unparsable_def net_500_def net_not_json_def
      net_down_def net_empty_def ok_def)

text \<open>
  C7 as stated fails where the request itself fails: the search call then fails with the
  rejection of \<^verbatim>\<open>fetch\<close>, not with the error that carries its name. It also fails on a
  response with status 200 whose body is not JSON: the call fails although the status
  is 2xx.
\<close>

theorem api_client_network_failure_counterexample:
  "net_down [] (GET_search None None) = NetworkFailure
   \<and> fst (searchPatients net_down [] [] []) = Inl TypeError
   \<and> ok 200 \<and> net_not_json [] (GET_summary None) = Response 200 None
   \<and> fst (getPatientSummary net_not_json None []) = Inl SyntaxError"
  by (simp add: client_defs net_down_def net_not_json_def ok_def)

section \<open>Properties of the patient session\<close>

subsection \<open>Selecting a patient\<close>

lemma truthy_patient_id: "truthy v \<Longrightarrow> \<exists>pid. patient_id v = Inr pid"
  by (cases v) simp_all

lemma Promise_all_rejects: "\<exists>r\<in>set rs. isl r \<Longrightarrow> isl (Promise_all rs)"
  by (induction rs rule: Promise_all.induct) (auto split: sum.splits)

lemma detailFetches_calls:
  "snd (detailFetches net pid sent) =
     sent @ [GET_summary pid, GET_encounters pid, GET_medications pid, GET_allergies pid,
             GET_vitals_labs pid]"
  by (simp add: detailFetches_def client_defs)

lemma detailFetches_results:
  "fst (detailFetches net pid sent) =
     [json_or_throw ''Failed to fetch patient summary'' (net sent (GET_summary pid)),
      json_or_throw ''Failed to fetch encounters'' (net (sent @ [GET_summary pid]) (GET_encounters pid)),
      json_or_throw ''Failed to fetch medications''
        (net (sent @ [GET_summary pid, GET_encounters pid]) (GET_medications pid)),
      json_or_throw ''Failed to fetch allergies''
        (net (sent @ [GET_summary pid, GET_encounters pid, GET_medications pid]) (GET_allergies pid)),
      json_or_throw ''Failed to fetch vitals/labs''
        (net (sent @ [GET_summary pid, GET_encounters pid, GET_medications pid, GET_allergies pid])
           (GET_vitals_labs pid))]"
  by (simp add: detailFetches_def client_defs)

lemma loadDetails_rejected:
  assumes "patient_id patient = Inr pid"
    and "isl (Promise_all (fst (detailFetches net pid (calls w))))"
  shows "loadDetails net patient w =
     w\<lparr>st := loadDetails_failed (loadDetails_begin patient (st w)),
       calls := snd (detailFetches net pid (calls w))\<rparr>"
  using assms
  by (cases "detailFetches net pid (calls w)")
     (auto simp: loadDetails_def Let_def split: sum.splits)

text \<open>
  C2. When a patient is selected and at least one of the five joined detail fetches
  fails, the one combined error message is set, nothing is shown with \<^verbatim>\<open>alert\<close>, and
  none of the five detail slots is updated: each keeps the value it had. All five
  requests were issued.
\<close>

theorem loadDetails_failure:
  assumes "patient_id patient = Inr pid"
    and "\<exists>r\<in>set (fst (detailFetches net pid (calls w))). isl r"
  shows "error (st (loadDetails net patient w)) = ''Error loading patient details''
    \<and> alerts (loadDetails net patient w) = alerts w
    \<and> summary (st (loadDetails net patient w)) = summary (st w)
    \<and> encounters (st (loadDetails net patient w)) = encounters (st w)
    \<and> medications (st (loadDetails net patient w)) = medications (st w)
    \<and> allergies (st (loadDetails net patient w)) = allergies (st w)
    \<and> vitalsLabs (st (loadDetails net patient w)) = vitalsLabs (st w)
    \<and> calls (loadDetails net patient w) =
        calls w @ [GET_summary pid, GET_encounters pid, GET_medications pid,
                   GET_allergies pid, GET_vitals_labs pid]"
proof -
  have "isl (Promise_all (fst (detailFetches net pid (calls w))))"
    using assms(2) by (rule Promise_all_rejects)
  then have "loadDetails net patient w =
     w\<lparr>st := loadDetails_failed (loadDetails_begin patient (st w)),
       calls := snd (detailFetches net pid (calls w))\<rparr>"
    using assms(1) by (simp add: loadDetails_rejected)
  then show ?thesis
    by (simp add: loadDetails_failed_def loadDetails_begin_def detailFetches_calls)
qed

theorem loadDetails_failure_witness:
  "error (st (loadDetails net_allergies_fail patient_B world_A)) = ''Error loading patient details''
   \<and> summary (st (loadDetails net_allergies_fail patient_B world_A)) = patient_A
   \<and> calls (loadDetails net_allergies_fail patient_B world_A) =
       [GET_summary (Some (JNum 2)), GET_encounters (Some (JNum 2)),
        GET_medications (Some (JNum 2)), GET_allergies (Some (JNum 2)),
        GET_vitals_labs (Some (JNum 2))]"
proof -
  have p: "patient_id patient_B = Inr (Some (JNum 2))"
    by (simp add: patient_B_def ascii_def)
  have f: "\<exists>r\<in>set (fst (detailFetches net_allergies_fail (Some (JNum 2)) (calls world_A))). isl r"
    by (simp add: detailFetches_results net_allergies_fail_def ok_def)
  show ?thesis
    using loadDetails_failure [OF p f] by (simp add: world_A_def initial_state_def)
qed

subsection \<open>The two parts of selecting a patient\<close>

lemma loadDetails_in_two_parts:
  "loadDetails net patient w =
     (case loadDetails_call net patient w of
        (w', None) \<Rightarrow> w'
      | (w', Some rs) \<Rightarrow> loadDetails_resume rs w')"
  by (cases "patient_id patient"; cases "detailFetches net (projr (patient_id patient)) (calls w)")
     (simp_all add: loadDetails_def loadDetails_call_def loadDetails_resume_def
        loadDetails_settle_def Let_def split: sum.splits list.splits)

subsection \<open>Search\<close>

lemma handleSearch_parts:
  "fst (handleSearch net w) =
     w\<lparr>st := handleSearch_reset (st w),
       calls := calls w @ [GET_search
         (if trim (name (st w)) \<noteq> [] then Some (trim (name (st w))) else None)
         (if trim (dob (st w)) \<noteq> [] then Some (trim (dob (st w))) else None)]\<rparr>"
  "snd (handleSearch net w) =
     json_or_throw ''Failed to search patients''
       (net (calls w) (GET_search
         (if trim (name (st w)) \<noteq> [] then Some (trim (name (st w))) else None)
         (if trim (dob (st w)) \<noteq> [] then Some (trim (dob (st w))) else None)))"
  by (simp_all add: handleSearch_def searchPatients_def fetch_def)

lemma handleSearch_settle_keeps:
  "selectedPatient (handleSearch_settle r s) = selectedPatient s"
  "summary (handleSearch_settle r s) = summary s"
  "encounters (handleSearch_settle r s) = encounters s"
  "medications (handleSearch_settle r s) = medications s"
  "allergies (handleSearch_settle r s) = allergies s"
  "vitalsLabs (handleSearch_settle r s) = vitalsLabs s"
  by (simp_all add: handleSearch_settle_def split: sum.splits bool.splits)

lemma handleSearch_reset_clears: "details_cleared (handleSearch_reset s)"
  by (simp add: details_cleared_def handleSearch_reset_def)

lemma handleSearch_resume_keeps: "details_kept (st w) (st (handleSearch_resume r w))"
  by (simp add: details_kept_def handleSearch_resume_def handleSearch_settle_keeps)

lemma details_kept_cleared: "details_kept s s' \<Longrightarrow> details_cleared s \<Longrightarrow> details_cleared s'"
  by (simp add: details_kept_def details_cleared_def)

lemma search_then_its_remainder:
  "ui_run net s [SubmitSearch, Resume (length (inflight s))] =
     \<lparr>present = handleSearch_resume (snd (handleSearch net (present s)))
                 (fst (handleSearch net (present s))),
      inflight = inflight s\<rparr>"
  by (cases "handleSearch net (present s)") (simp add: ui_run_def nth_append)

text \<open>
  C10, as amended. A search submission clears the selection and the five detail slots
  in the part of the handler that runs before the request, and then issues exactly one
  search request. The part of the handler that runs when the request has settled
  writes none of the six, whatever the outcome (documents, an empty result, a failure)
  and whatever state it finds. So when that part follows the submission with nothing
  else in between, the search completes with no patient selected and the five detail
  slots cleared.
\<close>

theorem handleSearch_clears_selection:
  "details_cleared (st (fst (handleSearch net w)))
   \<and> calls (fst (handleSearch net w)) =
       calls w @ [GET_search (if trim (name (st w)) \<noteq> [] then Some (trim (name (st w))) else None)
                             (if trim (dob (st w)) \<noteq> [] then Some (trim (dob (st w))) else None)]
   \<and> snd (handleSearch net w) =
       json_or_throw ''Failed to search patients''
         (net (calls w)
            (GET_search (if trim (name (st w)) \<noteq> [] then Some (trim (name (st w))) else None)
                        (if trim (dob (st w)) \<noteq> [] then Some (trim (dob (st w))) else None)))
   \<and> details_kept (st w') (st (handleSearch_resume r w'))
   \<and> calls (handleSearch_resume r w') = calls w'
   \<and> details_cleared (st (present (ui_run net s [SubmitSearch, Resume (length (inflight s))])))
   \<and> inflight (ui_run net s [SubmitSearch, Resume (length (inflight s))]) = inflight s"
proof -
  have a: "details_cleared (st (fst (handleSearch net v)))" for v
    by (simp add: handleSearch_parts(1) handleSearch_reset_clears)
  have b: "calls (fst (handleSearch net w)) =
      calls w @ [GET_search (if trim (name (st w)) \<noteq> [] then Some (trim (name (st w))) else None)
                            (if trim (dob (st w)) \<noteq> [] then Some (trim (dob (st w))) else None)]"
    by (simp add: handleSearch_parts(1))
  have c: "calls (handleSearch_resume r w') = calls w'"
    by (simp add: handleSearch_resume_def)
  have "details_cleared
      (st (handleSearch_resume (snd (handleSearch net (present s)))
             (fst (handleSearch net (present s)))))"
    using handleSearch_resume_keeps a by (rule details_kept_cleared)
  then have d: "details_cleared
      (st (present (ui_run net s [SubmitSearch, Resume (length (inflight s))])))"
    by (simp only: search_then_its_remainder session.select_convs)
  have e: "inflight (ui_run net s [SubmitSearch, Resume (length (inflight s))]) = inflight s"
    by (simp only: search_then_its_remainder session.select_convs)
  show ?thesis
    by (intro conjI) (rule a b handleSearch_parts(2) handleSearch_resume_keeps c d e)+
qed

text \<open>
  A search for " Jane " from a state with a patient selected and no handler in flight:
  refused by the server, answered with an empty list, answered with one patient.
\<close>

theorem handleSearch_clears_selection_witness:
  "truthy (selectedPatient (st (present session_search)))
   \<and> calls (fst (handleSearch net_500 world_search)) = [GET_search (Some (ascii ''Jane'')) None]
   \<and> selectedPatient (st (present (ui_run net_500 session_search [SubmitSearch, Resume 0]))) = JNull
   \<and> encounters (st (present (ui_run net_500 session_search [SubmitSearch, Resume 0]))) = JArr []
   \<and> error (st (present (ui_run net_500 session_search [SubmitSearch, Resume 0]))) =
       ''Error searching patients''
   \<and> selectedPatient (st (present (ui_run net_empty session_search [SubmitSearch, Resume 0]))) = JNull
   \<and> error (st (present (ui_run net_empty session_search [SubmitSearch, Resume 0]))) =
       ''No patients found''
   \<and> selectedPatient (st (present (ui_run net_ok session_search [SubmitSearch, Resume 0]))) = JNull
   \<and> patients (st (present (ui_run net_ok session_search [SubmitSearch, Resume 0]))) = JArr [JNum 0]
   \<and> error (st (present (ui_run net_ok session_search [SubmitSearch, Resume 0]))) = []"
proof -
  have t: "trim (name (st world_search)) = ascii ''Jane''" "trim (dob (st world_search)) = []"
    by (simp_all add: world_search_def world_A_def initial_state_def trim_def ascii_def
        is_js_space_def)
  have c: "calls world_search = []"
    by (simp add: world_search_def world_A_def)
  have s: "truthy (selectedPatient (st world_search))"
    by (simp add: world_search_def world_A_def initial_state_def patient_A_def)
  have n: "ascii ''Jane'' \<noteq> []"
    by (simp add: ascii_def)
  have p: "present session_search = world_search" "inflight session_search = []"
    by (simp_all add: session_search_def)
  have run: "present (ui_run net session_search [SubmitSearch, Resume 0]) =
      handleSearch_resume (snd (handleSearch net world_search)) (fst (handleSearch net world_search))"
    for net
    using search_then_its_remainder [of net session_search] by (simp add: p)
  have e: "error (st (handleSearch_resume r w)) = error (handleSearch_settle r (st w))"
    "patients (st (handleSearch_resume r w)) = patients (handleSearch_settle r (st w))" for r w
    by (simp_all add: handleSearch_resume_def)
  show ?thesis
    using handleSearch_clears_selection [of net_500 world_search _ _ session_search]
      handleSearch_clears_selection [of net_empty world_search _ _ session_search]
      handleSearch_clears_selection [of net_ok world_search _ _ session_search] s
    by (simp add: p run e t c n details_cleared_def handleSearch_parts net_500_def net_empty_def
        net_ok_def ok_def handleSearch_settle_def handleSearch_reset_def)
qed

text \<open>
  C10 as stated fails when the search overlaps another handler. A patient in the old
  list is clicked while the search is pending: the search completes with that patient
  selected. Or a patient is clicked, the search is submitted while the five fetches are
  pending, and they settle after the reset: when the search has completed and nothing
  is in flight any more, no patient is selected and the five slots hold the documents
  fetched for the patient selected before the search.
\<close>

theorem search_overlapping_selection_counterexample:
  "inflight (ui_run net_ok session_search [SubmitSearch, ClickPatient patient_B]) ! 0 =
     AfterSearch (Inr (JArr [JNum 0]))
   \<and> length (inflight (ui_run net_ok session_search
        [SubmitSearch, ClickPatient patient_B, Resume 0])) = 1
   \<and> selectedPatient (st (present (ui_run net_ok session_search
        [SubmitSearch, ClickPatient patient_B, Resume 0]))) = patient_B
   \<and> inflight (ui_run net_ok session_search
        [ClickPatient patient_B, SubmitSearch, Resume 0, Resume 0]) = []
   \<and> selectedPatient (st (present (ui_run net_ok session_search
        [ClickPatient patient_B, SubmitSearch, Resume 0, Resume 0]))) = JNull
   \<and> summary (st (present (ui_run net_ok session_search
        [ClickPatient patient_B, SubmitSearch, Resume 0, Resume 0]))) = JArr [JNum 0]
   \<and> encounters (st (present (ui_run net_ok session_search
        [ClickPatient patient_B, SubmitSearch, Resume 0, Resume 0]))) = JArr [JNum 1]
   \<and> medications (st (present (ui_run net_ok session_search
        [ClickPatient patient_B, SubmitSearch, Resume 0, Resume 0]))) = JArr [JNum 2]
   \<and> allergies (st (present (ui_run net_ok session_search
        [ClickPatient patient_B, SubmitSearch, Resume 0, Resume 0]))) = JArr [JNum 3]
   \<and> vitalsLabs (st (present (ui_run net_ok session_search
        [ClickPatient patient_B, SubmitSearch, Resume 0, Resume 0]))) = JArr [JNum 4]"
proof -
  have t: "trim (name (st world_search)) = ascii ''Jane''" "trim (dob (st world_search)) = []"
    by (simp_all add: world_search_def world_A_def initial_state_def trim_def ascii_def
        is_js_space_def)
  have f: "name (loadDetails_begin p s) = name s" "dob (loadDetails_begin p s) = dob s" for p s
    by (simp_all add: loadDetails_begin_def)
  have r: "name (handleSearch_reset s) = name s" "dob (handleSearch_reset s) = dob s" for s
    by (simp_all add: handleSearch_reset_def)
  have c: "calls world_search = []"
    by (simp add: world_search_def world_A_def)
  have b: "patient_id patient_B = Inr (Some (JNum 2))"
    by (simp add: patient_B_def)
  have d: "detailFetches net_ok pid sent =
      ([Inr (JArr [JNum (of_nat (length sent))]), Inr (JArr [JNum (of_nat (length sent) + 1)]),
        Inr (JArr [JNum (of_nat (length sent) + 2)]), Inr (JArr [JNum (of_nat (length sent) + 3)]),
        Inr (JArr [JNum (of_nat (length sent) + 4)])],
       sent @ [GET_summary pid, GET_encounters pid, GET_medications pid, GET_allergies pid,
               GET_vitals_labs pid])" for pid sent
    by (simp add: detailFetches_def client_defs net_ok_def ok_def)
  have h: "handleSearch net_ok w =
      (w\<lparr>st := handleSearch_reset (st w),
         calls := calls w @ [GET_search
           (if trim (name (st w)) \<noteq> [] then Some (trim (name (st w))) else None)
           (if trim (dob (st w)) \<noteq> [] then Some (trim (dob (st w))) else None)]\<rparr>,
       Inr (JArr [JNum (of_nat (length (calls w)))]))" for w
    by (simp add: handleSearch_def searchPatients_def fetch_def net_ok_def ok_def)
  show ?thesis
    by (simp add: ui_run_def session_search_def h loadDetails_call_def Let_def b d c t f r
        handleSearch_resume_def handleSearch_settle_keeps loadDetails_resume_def
        loadDetails_settle_def loadDetails_begin_def handleSearch_reset_def)
qed

subsection \<open>Adding an encounter\<close>

text \<open>
  C4. When a role that can edit submits the encounter form with a patient selected and
  a presenting complaint that is empty after trimming, the handler shows the validation
  message, issues no request and changes no state slot.
\<close>

theorem blank_complaint_rejected:
  assumes "canEditClinical (st w)"
    and "truthy (selectedPatient (st w))"
    and "trim (newEncounterComplaint (st w)) = []"
  shows "st (handleCreateEncounter net w) = st w
    \<and> calls (handleCreateEncounter net w) = calls w
    \<and> alerts (handleCreateEncounter net w) = alerts w @ [''Enter presenting complaint'']"
  using assms by (simp add: handleCreateEncounter_def)

theorem blank_complaint_rejected_witness:
  "trim (ascii ''  '' @ [0x9, 0xA0, 0x2003]) = []
   \<and> st (handleCreateEncounter net_500
        (world_A\<lparr>st := (st world_A)\<lparr>newEncounterComplaint := ascii ''  '' @ [0x9, 0xA0, 0x2003]\<rparr>\<rparr>)) =
      (st world_A)\<lparr>newEncounterComplaint := ascii ''  '' @ [0x9, 0xA0, 0x2003]\<rparr>
   \<and> calls (handleCreateEncounter net_500
        (world_A\<lparr>st := (st world_A)\<lparr>newEncounterComplaint := ascii ''  '' @ [0x9, 0xA0, 0x2003]\<rparr>\<rparr>)) = []
   \<and> alerts (handleCreateEncounter net_500
        (world_A\<lparr>st := (st world_A)\<lparr>newEncounterComplaint := ascii ''  '' @ [0x9, 0xA0, 0x2003]\<rparr>\<rparr>)) =
      [''Enter presenting complaint'']"
proof -
  let ?w = "world_A\<lparr>st := (st world_A)\<lparr>newEncounterComplaint := ascii ''  '' @ [0x9, 0xA0, 0x2003]\<rparr>\<rparr>"
  have t: "trim (ascii ''  '' @ [0x9, 0xA0, 0x2003]) = []"
    by (simp add: trim_def ascii_def is_js_space_def)
  have a: "canEditClinical (st ?w)"
    by (simp add: canEditClinical_def world_A_def initial_state_def)
  have b: "truthy (selectedPatient (st ?w))"
    by (simp add: world_A_def initial_state_def patient_A_def)
  have c: "trim (newEncounterComplaint (st ?w)) = []"
    using t by simp
  show ?thesis
    using blank_complaint_rejected [OF a b c, of net_500] t by (simp add: world_A_def)
qed

subsection \<open>What a client call delivers\<close>

lemma json_or_throw_Inr: "(json_or_throw m res = Inr j) = (delivered res = Some j)"
  by (cases res) (auto split: option.splits)

lemma json_or_throw_isl: "isl (json_or_throw m res) = (delivered res = None)"
  by (cases res) (auto split: option.splits)

subsection \<open>Submitting an encounter that passes the guards\<close>

lemma handleCreateEncounter_accepted:
  assumes "canEditClinical (st w)"
    and "truthy (selectedPatient (st w))"
    and "trim (newEncounterComplaint (st w)) \<noteq> []"
    and "patient_id (selectedPatient (st w)) = Inr pid"
  shows "handleCreateEncounter net w =
     (case json_or_throw ''Failed to create encounter''
             (net (calls w) (POST_encounters pid (encounterPayload (st w)))) of
        Inl err \<Rightarrow> encounter_failed w (calls w @ [POST_encounters pid (encounterPayload (st w))])
      | Inr created \<Rightarrow>
          (case json_or_throw ''Failed to fetch encounters''
                  (net (calls w @ [POST_encounters pid (encounterPayload (st w))])
                     (GET_encounters pid)) of
             Inl err \<Rightarrow>
               encounter_failed w
                 (calls w @ [POST_encounters pid (encounterPayload (st w)), GET_encounters pid])
           | Inr updated \<Rightarrow>
               w\<lparr>st := (st w)\<lparr>encounters := updated, newEncounterComplaint := [],
                        newEncounterDoctor := [], newEncounterType := ''A&E''\<rparr>,
                 calls := calls w @ [POST_encounters pid (encounterPayload (st w)),
                                     GET_encounters pid]\<rparr>))"
  using assms
  by (simp add: handleCreateEncounter_def createEncounter_def getPatientEncounters_def fetch_def
      split: sum.splits)

lemma handleCreateEncounter_calls:
  assumes "canEditClinical (st w)"
    and "truthy (selectedPatient (st w))"
    and "trim (newEncounterComplaint (st w)) \<noteq> []"
    and "patient_id (selectedPatient (st w)) = Inr pid"
  shows "calls (handleCreateEncounter net w) =
     calls w @
       (if delivered (net (calls w) (POST_encounters pid (encounterPayload (st w)))) = None
        then [POST_encounters pid (encounterPayload (st w))]
        else [POST_encounters pid (encounterPayload (st w)), GET_encounters pid])"
proof (cases "delivered (net (calls w) (POST_encounters pid (encounterPayload (st w))))")
  case None
  then have "isl (json_or_throw ''Failed to create encounter''
      (net (calls w) (POST_encounters pid (encounterPayload (st w)))))"
    by (simp add: json_or_throw_isl)
  then obtain err where "json_or_throw ''Failed to create encounter''
      (net (calls w) (POST_encounters pid (encounterPayload (st w)))) = Inl err"
    by (auto simp: isl_def)
  then show ?thesis
    using None by (simp add: handleCreateEncounter_accepted [OF assms] encounter_failed_def)
next
  case (Some created)
  then have "json_or_throw ''Failed to create encounter''
      (net (calls w) (POST_encounters pid (encounterPayload (st w)))) = Inr created"
    by (simp add: json_or_throw_Inr)
  then show ?thesis
    using Some
    by (cases "json_or_throw ''Failed to fetch encounters''
          (net (calls w @ [POST_encounters pid (encounterPayload (st w))]) (GET_encounters pid))")
       (simp_all add: handleCreateEncounter_accepted [OF assms] encounter_failed_def)
qed

lemma handleCreateEncounter_refreshes:
  assumes "canEditClinical (st w)"
    and "truthy (selectedPatient (st w))"
    and "trim (newEncounterComplaint (st w)) \<noteq> []"
    and "patient_id (selectedPatient (st w)) = Inr pid"
    and "delivered (net (calls w) (POST_encounters pid (encounterPayload (st w)))) = Some created"
    and "delivered (net (calls w @ [POST_encounters pid (encounterPayload (st w))])
           (GET_encounters pid)) = Some updated"
  shows "encounters (st (handleCreateEncounter net w)) = updated"
proof -
  have "json_or_throw ''Failed to create encounter''
      (net (calls w) (POST_encounters pid (encounterPayload (st w)))) = Inr created"
    using assms(5) by (simp add: json_or_throw_Inr)
  moreover have "json_or_throw ''Failed to fetch encounters''
      (net (calls w @ [POST_encounters pid (encounterPayload (st w))]) (GET_encounters pid)) =
      Inr updated"
    using assms(6) by (simp add: json_or_throw_Inr)
  ultimately show ?thesis
    by (simp add: handleCreateEncounter_accepted [OF assms(1-4)])
qed

text \<open>
  C3, as amended. Under a role that cannot edit (the policy maker) a submission of the
  encounter form is refused with the permission message, issues no request and changes
  no state slot. The capability holds for the field doctor and the hospital admin and not
  for the policy maker. Under a role that can edit, with a patient selected and a
  complaint that is not blank, exactly one create-encounter request is issued; when that
  call succeeds it is followed by exactly one re-fetch of the encounter list, whose result
  replaces the stored encounters; when it fails, nothing follows it.
\<close>

theorem encounter_submission:
  "(\<not> canEditClinical (st w) \<longrightarrow>
      st (handleCreateEncounter net w) = st w \<and>
      calls (handleCreateEncounter net w) = calls w \<and>
      alerts (handleCreateEncounter net w) =
        alerts w @ [''This role has read-only access and cannot add encounters.''])
   \<and> (staffRole (st w) = ''Policy maker'' \<longrightarrow> \<not> canEditClinical (st w))
   \<and> (staffRole (st w) = ''Field doctor'' \<longrightarrow> canEditClinical (st w))
   \<and> (staffRole (st w) = ''Hospital admin'' \<longrightarrow> canEditClinical (st w))
   \<and> (canEditClinical (st w) \<and> truthy (selectedPatient (st w)) \<and>
       trim (newEncounterComplaint (st w)) \<noteq> [] \<and>
       patient_id (selectedPatient (st w)) = Inr pid \<longrightarrow>
         calls (handleCreateEncounter net w) =
           calls w @
             (if delivered (net (calls w) (POST_encounters pid (encounterPayload (st w)))) = None
              then [POST_encounters pid (encounterPayload (st w))]
              else [POST_encounters pid (encounterPayload (st w)), GET_encounters pid])
         \<and> (\<forall>created updated.
               delivered (net (calls w) (POST_encounters pid (encounterPayload (st w)))) =
                 Some created \<and>
               delivered (net (calls w @ [POST_encounters pid (encounterPayload (st w))])
                  (GET_encounters pid)) = Some updated \<longrightarrow>
               encounters (st (handleCreateEncounter net w)) = updated))"
proof -
  have ro: "\<not> canEditClinical (st w) \<longrightarrow>
      st (handleCreateEncounter net w) = st w \<and>
      calls (handleCreateEncounter net w) = calls w \<and>
      alerts (handleCreateEncounter net w) =
        alerts w @ [''This role has read-only access and cannot add encounters.'']"
    by (simp add: handleCreateEncounter_def)
  have roles: "(staffRole (st w) = ''Policy maker'' \<longrightarrow> \<not> canEditClinical (st w))
     \<and> (staffRole (st w) = ''Field doctor'' \<longrightarrow> canEditClinical (st w))
     \<and> (staffRole (st w) = ''Hospital admin'' \<longrightarrow> canEditClinical (st w))"
    by (simp add: canEditClinical_def)
  show ?thesis
    using ro roles handleCreateEncounter_calls [of w pid net]
      handleCreateEncounter_refreshes [of w pid net]
    by blast
qed

theorem encounter_submission_witness:
  "calls (handleCreateEncounter net_ok world_A) =
     [POST_encounters (Some (JNum 1))
        \<lparr>encounter_type = ''A&E'', presenting_complaint = ascii ''chest pain'', doctor_name = None\<rparr>,
      GET_encounters (Some (JNum 1))]
   \<and> encounters (st (handleCreateEncounter net_ok world_A)) = JArr [JNum 1]
   \<and> calls (handleCreateEncounter net_ok world_policy) = []
   \<and> alerts (handleCreateEncounter net_ok world_policy) =
       [''This role has read-only access and cannot add encounters.'']"
proof -
  have a: "canEditClinical (st world_A)" "\<not> canEditClinical (st world_policy)"
    by (simp_all add: canEditClinical_def world_policy_def world_A_def initial_state_def)
  have b: "truthy (selectedPatient (st world_A))"
    by (simp add: world_A_def initial_state_def patient_A_def)
  have c: "trim (newEncounterComplaint (st world_A)) \<noteq> []"
    by (simp add: world_A_def initial_state_def trim_def ascii_def is_js_space_def)
  have d: "patient_id (selectedPatient (st world_A)) = Inr (Some (JNum 1))"
    by (simp add: world_A_def initial_state_def patient_A_def)
  have e: "encounterPayload (st world_A) =
      \<lparr>encounter_type = ''A&E'', presenting_complaint = ascii ''chest pain'', doctor_name = None\<rparr>"
    by (simp add: encounterPayload_def world_A_def initial_state_def)
  have f: "calls world_A = []" "calls world_policy = []" "alerts world_policy = []"
    by (simp_all add: world_A_def world_policy_def)
  show ?thesis
    using encounter_submission [of world_A net_ok "Some (JNum 1)"]
      encounter_submission [of world_policy net_ok "Some (JNum 1)"] a b c d
    by (simp add: e f net_ok_def ok_def)
qed

text \<open>
  C3 as stated fails when the server refuses the create call: a field doctor with a
  patient selected and the complaint "chest pain" submits, one create-encounter request
  is issued and no re-fetch follows it; the stored encounters stay as they were.
\<close>

theorem encounter_create_failure_counterexample:
  "canEditClinical (st world_A) \<and> truthy (selectedPatient (st world_A))
   \<and> trim (newEncounterComplaint (st world_A)) \<noteq> []
   \<and> calls (handleCreateEncounter net_500 world_A) =
       [POST_encounters (Some (JNum 1))
          \<lparr>encounter_type = ''A&E'', presenting_complaint = ascii ''chest pain'',
           doctor_name = None\<rparr>]
   \<and> encounters (st (handleCreateEncounter net_500 world_A)) = encounters (st world_A)
   \<and> alerts (handleCreateEncounter net_500 world_A) = [''Failed to add encounter'']"
proof -
  have a: "canEditClinical (st world_A)"
    by (simp add: canEditClinical_def world_A_def initial_state_def)
  have b: "truthy (selectedPatient (st world_A))"
    by (simp add: world_A_def initial_state_def patient_A_def)
  have c: "trim (newEncounterComplaint (st world_A)) \<noteq> []"
    by (simp add: world_A_def initial_state_def trim_def ascii_def is_js_space_def)
  have d: "patient_id (selectedPatient (st world_A)) = Inr (Some (JNum 1))"
    by (simp add: world_A_def initial_state_def patient_A_def)
  have e: "encounterPayload (st world_A) =
      \<lparr>encounter_type = ''A&E'', presenting_complaint = ascii ''chest pain'', doctor_name = None\<rparr>"
    by (simp add: encounterPayload_def world_A_def initial_state_def)
  have f: "calls world_A = []" "alerts world_A = []"
    by (simp_all add: world_A_def)
  show ?thesis
    using a b c
    by (simp add: handleCreateEncounter_accepted [OF a b c d] e f net_500_def ok_def
        encounter_failed_def)
qed

text \<open>
  C9. Every encounter submission that reaches the create call sends, as the first request
  of the handler, the payload in which the doctor name is absent (\<^verbatim>\<open>null\<close>) when the
  field is the empty string and is the field as entered otherwise; the complaint and the
  type are sent as entered.
\<close>

theorem doctor_name_normalized:
  assumes "canEditClinical (st w)"
    and "truthy (selectedPatient (st w))"
    and "trim (newEncounterComplaint (st w)) \<noteq> []"
  shows "(\<exists>pid rest.
      calls (handleCreateEncounter net w) =
        calls w @ POST_encounters pid (encounterPayload (st w)) # rest)
      \<and> doctor_name (encounterPayload (st w)) =
          (if newEncounterDoctor (st w) = [] then None else Some (newEncounterDoctor (st w)))
      \<and> presenting_complaint (encounterPayload (st w)) = newEncounterComplaint (st w)
      \<and> encounter_type (encounterPayload (st w)) = newEncounterType (st w)"
proof -
  obtain pid where pid: "patient_id (selectedPatient (st w)) = Inr pid"
    using assms(2) truthy_patient_id by blast
  have "\<exists>rest. calls (handleCreateEncounter net w) =
      calls w @ POST_encounters pid (encounterPayload (st w)) # rest"
    by (simp add: handleCreateEncounter_calls [OF assms pid])
  then show ?thesis
    by (auto simp: encounterPayload_def)
qed

text \<open>
  The doctor name left empty, filled in, and filled with a single space (which is not the
  empty string and is sent as entered).
\<close>

theorem doctor_name_normalized_witness:
  "(\<exists>pid rest. calls (handleCreateEncounter net_ok world_A) =
       POST_encounters pid
         \<lparr>encounter_type = ''A&E'', presenting_complaint = ascii ''chest pain'',
          doctor_name = None\<rparr> # rest)
   \<and> (\<exists>pid rest. calls (handleCreateEncounter net_ok
         (world_A\<lparr>st := (st world_A)\<lparr>newEncounterDoctor := ascii ''Dr Obi''\<rparr>\<rparr>)) =
       POST_encounters pid
         \<lparr>encounter_type = ''A&E'', presenting_complaint = ascii ''chest pain'',
          doctor_name = Some (ascii ''Dr Obi'')\<rparr> # rest)
   \<and> (\<exists>pid rest. calls (handleCreateEncounter net_ok
         (world_A\<lparr>st := (st world_A)\<lparr>newEncounterDoctor := ascii '' ''\<rparr>\<rparr>)) =
       POST_encounters pid
         \<lparr>encounter_type = ''A&E'', presenting_complaint = ascii ''chest pain'',
          doctor_name = Some (ascii '' '')\<rparr> # rest)"
proof -
  have a: "canEditClinical (st (world_A\<lparr>st := (st world_A)\<lparr>newEncounterDoctor := d\<rparr>\<rparr>))" for d
    by (simp add: canEditClinical_def world_A_def initial_state_def)
  have b: "truthy (selectedPatient (st (world_A\<lparr>st := (st world_A)\<lparr>newEncounterDoctor := d\<rparr>\<rparr>)))" for d
    by (simp add: world_A_def initial_state_def patient_A_def)
  have c: "trim (newEncounterComplaint
      (st (world_A\<lparr>st := (st world_A)\<lparr>newEncounterDoctor := d\<rparr>\<rparr>))) \<noteq> []" for d
    by (simp add: world_A_def initial_state_def trim_def ascii_def is_js_space_def)
  have e: "encounterPayload ((st world_A)\<lparr>newEncounterDoctor := d\<rparr>) =
      \<lparr>encounter_type = ''A&E'', presenting_complaint = ascii ''chest pain'',
       doctor_name = (if d \<noteq> [] then Some d else None)\<rparr>" for d
    by (simp add: encounterPayload_def world_A_def initial_state_def)
  have f: "calls (world_A\<lparr>st := (st world_A)\<lparr>newEncounterDoctor := d\<rparr>\<rparr>) = []" for d
    by (simp add: world_A_def)
  have g: "world_A\<lparr>st := (st world_A)\<lparr>newEncounterDoctor := []\<rparr>\<rparr> = world_A"
    by (simp add: world_A_def initial_state_def)
  have n: "ascii ''Dr Obi'' \<noteq> []" "ascii '' '' \<noteq> []"
    by (simp_all add: ascii_def)
  have e0: "encounterPayload (st world_A) =
      \<lparr>encounter_type = ''A&E'', presenting_complaint = ascii ''chest pain'',
       doctor_name = None\<rparr>"
    by (simp add: encounterPayload_def world_A_def initial_state_def)
  have f0: "calls world_A = []"
    by (simp add: world_A_def)
  show ?thesis
    using doctor_name_normalized [OF a [of "[]"] b [of "[]"] c [of "[]"], of net_ok,
        THEN conjunct1]
      doctor_name_normalized [OF a [of "ascii ''Dr Obi''"] b [of "ascii ''Dr Obi''"]
        c [of "ascii ''Dr Obi''"], of net_ok, THEN conjunct1]
      doctor_name_normalized [OF a [of "ascii '' ''"] b [of "ascii '' ''"]
        c [of "ascii '' ''"], of net_ok, THEN conjunct1]
    by (simp add: e f n g e0 f0)
qed

subsection \<open>Changing the photo\<close>

lemma handlePhotoUpload_accepted:
  assumes "canEditClinical (st w)"
    and "truthy (selectedPatient (st w))"
    and "patient_id (selectedPatient (st w)) = Inr pid"
    and "(case fileOverride of Some g \<Rightarrow> Some g | None \<Rightarrow> photoFile (st w)) = Some f"
  shows "handlePhotoUpload net fileOverride w =
     (case json_or_throw ''Failed to upload photo'' (net (calls w) (POST_photo pid f)) of
        Inl err \<Rightarrow> photo_failed w (calls w @ [POST_photo pid f])
      | Inr updated \<Rightarrow>
          (case json_or_throw ''Failed to fetch patient summary''
                  (net (calls w @ [POST_photo pid f]) (GET_summary pid)) of
             Inl err \<Rightarrow> photo_failed w (calls w @ [POST_photo pid f, GET_summary pid])
           | Inr freshSummary \<Rightarrow>
               w\<lparr>st := (st w)\<lparr>summary := freshSummary,
                        photoFile := (if fileOverride = None then None else photoFile (st w)),
                        uploadingPhoto := False\<rparr>,
                 calls := calls w @ [POST_photo pid f, GET_summary pid]\<rparr>))"
  using assms
  by (simp add: handlePhotoUpload_def uploadPatientPhoto_def getPatientSummary_def fetch_def
      split: sum.splits)

lemma handlePhotoUpload_calls:
  assumes "canEditClinical (st w)"
    and "truthy (selectedPatient (st w))"
    and "patient_id (selectedPatient (st w)) = Inr pid"
    and "(case fileOverride of Some g \<Rightarrow> Some g | None \<Rightarrow> photoFile (st w)) = Some f"
  shows "calls (handlePhotoUpload net fileOverride w) =
     calls w @
       (if delivered (net (calls w) (POST_photo pid f)) = None then [POST_photo pid f]
        else [POST_photo pid f, GET_summary pid])"
proof (cases "delivered (net (calls w) (POST_photo pid f))")
  case None
  then have "isl (json_or_throw ''Failed to upload photo'' (net (calls w) (POST_photo pid f)))"
    by (simp add: json_or_throw_isl)
  then obtain err where
    "json_or_throw ''Failed to upload photo'' (net (calls w) (POST_photo pid f)) = Inl err"
    by (auto simp: isl_def)
  then show ?thesis
    using None by (simp add: handlePhotoUpload_accepted [OF assms] photo_failed_def)
next
  case (Some updated)
  then have "json_or_throw ''Failed to upload photo'' (net (calls w) (POST_photo pid f)) =
      Inr updated"
    by (simp add: json_or_throw_Inr)
  then show ?thesis
    using Some
    by (cases "json_or_throw ''Failed to fetch patient summary''
          (net (calls w @ [POST_photo pid f]) (GET_summary pid))")
       (simp_all add: handlePhotoUpload_accepted [OF assms] photo_failed_def)
qed

lemma handlePhotoUpload_refreshes:
  assumes "canEditClinical (st w)"
    and "truthy (selectedPatient (st w))"
    and "patient_id (selectedPatient (st w)) = Inr pid"
    and "(case fileOverride of Some g \<Rightarrow> Some g | None \<Rightarrow> photoFile (st w)) = Some f"
    and "delivered (net (calls w) (POST_photo pid f)) = Some updated"
    and "delivered (net (calls w @ [POST_photo pid f]) (GET_summary pid)) = Some freshSummary"
  shows "summary (st (handlePhotoUpload net fileOverride w)) = freshSummary"
proof -
  have "json_or_throw ''Failed to upload photo'' (net (calls w) (POST_photo pid f)) = Inr updated"
    using assms(5) by (simp add: json_or_throw_Inr)
  moreover have "json_or_throw ''Failed to fetch patient summary''
      (net (calls w @ [POST_photo pid f]) (GET_summary pid)) = Inr freshSummary"
    using assms(6) by (simp add: json_or_throw_Inr)
  ultimately show ?thesis
    by (simp add: handlePhotoUpload_accepted [OF assms(1-4)])
qed

lemma onCapture_same:
  "calls (onCapture net f w) = calls (handlePhotoUpload net (Some f) w)"
  "summary (st (onCapture net f w)) = summary (st (handlePhotoUpload net (Some f) w))"
  by (simp_all add: onCapture_def Let_def)

text \<open>
  C8. With a patient selected and a role that can edit, a photo change from the file
  picker (the file in the slot) and one from the camera (the file given by the capture)
  both run the one handler, which gives the image to the one upload call of the client:
  the first request is the upload of that image. When the upload succeeds, the next and
  last request is the re-fetch of the patient summary, and the document it delivers
  replaces the stored summary; when the upload fails, nothing follows it.
\<close>

theorem photo_change_converges:
  assumes "canEditClinical (st w)"
    and "truthy (selectedPatient (st w))"
    and "patient_id (selectedPatient (st w)) = Inr pid"
  shows "uploadPhotoClick net w = handlePhotoUpload net None w
    \<and> onCapture net f w =
        (handlePhotoUpload net (Some f) w)
          \<lparr>st := (st (handlePhotoUpload net (Some f) w))\<lparr>showCamera := False\<rparr>\<rparr>
    \<and> (photoFile (st w) = Some f \<longrightarrow>
         calls (uploadPhotoClick net w) =
           calls w @
             (if delivered (net (calls w) (POST_photo pid f)) = None then [POST_photo pid f]
              else [POST_photo pid f, GET_summary pid]))
    \<and> calls (onCapture net f w) =
         calls w @
           (if delivered (net (calls w) (POST_photo pid f)) = None then [POST_photo pid f]
            else [POST_photo pid f, GET_summary pid])
    \<and> (\<forall>updated freshSummary.
          delivered (net (calls w) (POST_photo pid f)) = Some updated \<and>
          delivered (net (calls w @ [POST_photo pid f]) (GET_summary pid)) = Some freshSummary \<longrightarrow>
          summary (st (onCapture net f w)) = freshSummary \<and>
          (photoFile (st w) = Some f \<longrightarrow> summary (st (uploadPhotoClick net w)) = freshSummary))"
proof -
  have cam: "(case Some f of Some g \<Rightarrow> Some g | None \<Rightarrow> photoFile (st w)) = Some f"
    by simp
  have pick: "photoFile (st w) = Some f \<Longrightarrow>
      (case None of Some g \<Rightarrow> Some g | None \<Rightarrow> photoFile (st w)) = Some f"
    by simp
  show ?thesis
    using handlePhotoUpload_calls [OF assms cam, of net]
      handlePhotoUpload_calls [OF assms pick, of net]
      handlePhotoUpload_refreshes [OF assms cam, of net]
      handlePhotoUpload_refreshes [OF assms pick, of net]
    by (simp add: uploadPhotoClick_def onCapture_same) (simp add: onCapture_def Let_def)
qed

theorem photo_change_converges_witness:
  "calls (uploadPhotoClick net_ok (world_A\<lparr>st := (st world_A)\<lparr>photoFile := Some picked_photo\<rparr>\<rparr>)) =
     [POST_photo (Some (JNum 1)) picked_photo, GET_summary (Some (JNum 1))]
   \<and> calls (onCapture net_ok picked_photo
        (world_A\<lparr>st := (st world_A)\<lparr>photoFile := Some picked_photo\<rparr>\<rparr>)) =
     [POST_photo (Some (JNum 1)) picked_photo, GET_summary (Some (JNum 1))]
   \<and> summary (st (uploadPhotoClick net_ok
        (world_A\<lparr>st := (st world_A)\<lparr>photoFile := Some picked_photo\<rparr>\<rparr>))) = JArr [JNum 1]
   \<and> summary (st (onCapture net_ok picked_photo
        (world_A\<lparr>st := (st world_A)\<lparr>photoFile := Some picked_photo\<rparr>\<rparr>))) = JArr [JNum 1]"
proof -
  let ?w = "world_A\<lparr>st := (st world_A)\<lparr>photoFile := Some picked_photo\<rparr>\<rparr>"
  have a: "canEditClinical (st ?w)"
    by (simp add: canEditClinical_def world_A_def initial_state_def)
  have b: "truthy (selectedPatient (st ?w))"
    by (simp add: world_A_def initial_state_def patient_A_def)
  have c: "patient_id (selectedPatient (st ?w)) = Inr (Some (JNum 1))"
    by (simp add: world_A_def initial_state_def patient_A_def)
  have d: "calls ?w = []" "photoFile (st ?w) = Some picked_photo"
    by (simp_all add: world_A_def)
  show ?thesis
    using photo_change_converges [OF a b c, of net_ok picked_photo, THEN conjunct2, THEN conjunct2] d
    by (simp add: net_ok_def ok_def)
qed

subsection \<open>Reselection and logout\<close>

text \<open>
  C1, evaluated on the code. A field doctor has patient A selected with its details
  loaded. Selecting patient B does not clear the five detail slots before the fetches are
  issued, and when the fetches fail the slots still hold the documents of A while B is
  the selected patient. Logging out clears the selection and the summary, and leaves the
  encounters, medications, allergies and vitals/labs of A in their slots.
\<close>

theorem stale_details_survive_reselect_and_logout:
  "selectedPatient (st (loadDetails net_down patient_B world_A)) = patient_B
   \<and> summary (loadDetails_begin patient_B (st world_A)) = patient_A
   \<and> encounters (loadDetails_begin patient_B (st world_A)) = JArr [JStr (ascii ''encounter of A'')]
   \<and> summary (st (loadDetails net_down patient_B world_A)) = patient_A
   \<and> encounters (st (loadDetails net_down patient_B world_A)) = JArr [JStr (ascii ''encounter of A'')]
   \<and> medications (st (loadDetails net_down patient_B world_A)) = JArr [JStr (ascii ''medication of A'')]
   \<and> allergies (st (loadDetails net_down patient_B world_A)) = JArr [JStr (ascii ''allergy of A'')]
   \<and> vitalsLabs (st (loadDetails net_down patient_B world_A)) = JArr [JStr (ascii ''vitals of A'')]
   \<and> selectedPatient (st (logout world_A)) = JNull
   \<and> summary (st (logout world_A)) = JNull
   \<and> encounters (st (logout world_A)) = JArr [JStr (ascii ''encounter of A'')]
   \<and> medications (st (logout world_A)) = JArr [JStr (ascii ''medication of A'')]
   \<and> allergies (st (logout world_A)) = JArr [JStr (ascii ''allergy of A'')]
   \<and> vitalsLabs (st (logout world_A)) = JArr [JStr (ascii ''vitals of A'')]"
proof -
  have p: "patient_id patient_B = Inr (Some (JNum 2))"
    by (simp add: patient_B_def)
  have f: "isl (Promise_all (fst (detailFetches net_down (Some (JNum 2)) (calls world_A))))"
    by (simp add: detailFetches_results net_down_def)
  have "loadDetails net_down patient_B world_A =
     world_A\<lparr>st := loadDetails_failed (loadDetails_begin patient_B (st world_A)),
       calls := snd (detailFetches net_down (Some (JNum 2)) (calls world_A))\<rparr>"
    using p f by (rule loadDetails_rejected)
  then show ?thesis
    by (simp add: loadDetails_failed_def loadDetails_begin_def logout_def world_A_def
        initial_state_def)
qed

section \<open>Properties of the camera\<close>





lemma cleanup_facingMode: "facingMode (cleanup c) = facingMode c"
  by (simp add: cleanup_def split: option.splits)




















text \<open>
  C5. With the video element mounted, a capture hands over a file exactly when the
  browser's encoder hands over a blob for the canvas, and that file is named
  \<^verbatim>\<open>camera_capture.jpg\<close>, has the type \<^verbatim>\<open>image/jpeg\<close>, and is the JPEG encoding at
  quality 0.9 of a canvas as wide and as high as the video reports, with 640 in place of
  a width of zero and 480 in place of a height of zero.
\<close>

theorem capture_still_frame:
  assumes "videoRef c = Some video"
  shows "(handleCaptureClick encodes c \<noteq> None) =
      encodes \<lparr>width = (if videoWidth video = 0 then 640 else videoWidth video),
               height = (if videoHeight video = 0 then 480 else videoHeight video),
               drawn = frame video\<rparr> ''image/jpeg'' (9 / 10)
    \<and> (\<forall>f. handleCaptureClick encodes c = Some f \<longrightarrow>
          image_size f = Some (if videoWidth video = 0 then 640 else videoWidth video,
                               if videoHeight video = 0 then 480 else videoHeight video)
          \<and> image_encoding f = Some (''image/jpeg'', 9 / 10)
          \<and> file_name f = ''camera_capture.jpg''
          \<and> file_type f = ''image/jpeg'')"
  using assms by (auto simp: handleCaptureClick_def Let_def)

theorem capture_still_frame_witness:
  "(\<exists>f. handleCaptureClick encodes_always ((unmounted (video_of 1280 720))) = Some f
        \<and> image_size f = Some (1280, 720) \<and> image_encoding f = Some (''image/jpeg'', 9 / 10)
        \<and> file_name f = ''camera_capture.jpg'')
   \<and> (\<exists>f. handleCaptureClick encodes_always ((unmounted (video_of 0 0))) = Some f
        \<and> image_size f = Some (640, 480))
   \<and> (\<exists>f. handleCaptureClick encodes_always ((unmounted (video_of 1280 0))) = Some f
        \<and> image_size f = Some (1280, 480))"
proof -
  have v: "videoRef (unmounted (video_of w h)) = Some (video_of w h)" for w h
    by (simp add: unmounted_def)
  show ?thesis
    using capture_still_frame [OF v [of 1280 720], of encodes_always]
      capture_still_frame [OF v [of 0 0], of encodes_always]
      capture_still_frame [OF v [of 1280 0], of encodes_always]
    by (auto simp: video_of_def encodes_always_def)
qed

end
